theory Spec2Isabelle
  imports Complex_Main
begin

text \<open>
  A model of \<open>purple_to_prom.py\<close>: \<open>check_sensor\<close> fetches the records of one parent sensor
  and turns each into entries of six labelled gauges, \<open>clear_metrics\<close> empties the gauges,
  and \<open>poll\<close> calls \<open>check_sensor\<close> for every configured sensor, forever. Exceptions are
  values, the gauges and the requests sent are an explicit state, and the libraries the
  program calls are parameters.
\<close>

section \<open>Python values and exceptions\<close>

text \<open>
  The values \<open>resp.json()\<close> and \<open>json.loads\<close> hand to \<open>check_sensor\<close>: \<open>None\<close>, booleans,
  integers, floats, strings, lists and dictionaries. A dictionary is an association list;
  a lookup takes the first binding of the key. Python floats are idealised as reals:
  rounding, infinities and NaN are outside the model.
\<close>

datatype pyval =
  PNone
| PBool bool
| PInt int
| PFloat real
| PStr string
| PList "pyval list"
| PDict "(string \<times> pyval) list"

text \<open>
  The exceptions of the program. \<open>StatusError n\<close> is the plain \<open>Exception\<close> that
  \<open>check_sensor\<close> raises for a response code \<open>n\<close> outside 200..299; \<open>LibError\<close> is whatever
  an external library call raises. All of them are subclasses of \<open>Exception\<close>.
\<close>

datatype exn = TypeError | ValueError | AttributeError | KeyError | StatusError int | LibError string

text \<open>Truth value testing, as \<open>if x:\<close> does it.\<close>

fun truthy :: "pyval \<Rightarrow> bool" where
  "truthy PNone = False"
| "truthy (PBool b) = b"
| "truthy (PInt i) = (i \<noteq> 0)"
| "truthy (PFloat r) = (r \<noteq> 0)"
| "truthy (PStr s) = (s \<noteq> [])"
| "truthy (PList xs) = (xs \<noteq> [])"
| "truthy (PDict kvs) = (kvs \<noteq> [])"

text \<open>\<open>d.get(k)\<close> on a dictionary: the value, or \<open>None\<close> for a missing key.\<close>

definition dict_get :: "(string \<times> pyval) list \<Rightarrow> string \<Rightarrow> pyval" where
  "dict_get kvs k = (case map_of kvs k of None \<Rightarrow> PNone | Some v \<Rightarrow> v)"

text \<open>\<open>x.get(k)\<close> on any value: only a dictionary has the method.\<close>

fun py_get :: "pyval \<Rightarrow> string \<Rightarrow> exn + pyval" where
  "py_get (PDict kvs) k = Inr (dict_get kvs k)"
| "py_get _ k = Inl AttributeError"

text \<open>
  \<open>for sensor in x\<close>: a list yields its elements, a dictionary its keys, a string its
  characters; the other values are not iterable.
\<close>

fun py_iter :: "pyval \<Rightarrow> exn + pyval list" where
  "py_iter (PList xs) = Inr xs"
| "py_iter (PDict kvs) = Inr (map (\<lambda>kv. PStr (fst kv)) kvs)"
| "py_iter (PStr s) = Inr (map (\<lambda>c. PStr [c]) s)"
| "py_iter _ = Inl TypeError"

section \<open>External libraries\<close>

text \<open>
  The network, the JSON parser, the conversions between text and numbers, the AQI
  library and the lock of a gauge are not part of the program. They are parameters of
  the model:
  \<^item> \<open>http_get n url key\<close> is \<open>requests.get(url, headers={"X-API-Key": key})\<close> when \<open>n\<close>
    requests were made before;
  \<^item> \<open>loads s\<close> is \<open>json.loads(s)\<close> on a string, \<open>None\<close> when it raises \<open>JSONDecodeError\<close>
    (a \<open>ValueError\<close>);
  \<^item> \<open>float_of_str s\<close> is \<open>float(s)\<close> on a string, \<open>None\<close> when it raises \<open>ValueError\<close>;
  \<^item> \<open>str_of v\<close> is \<open>str(v)\<close>, which the metrics library applies to every label value;
  \<^item> \<open>to_iaqi p c a\<close> is \<open>aqi.to_iaqi(p, str(c), algo=a)\<close>; the text that carries the
    concentration is taken to denote it exactly, and the index returned is a number
    (\<open>set\<close> stores the \<open>float\<close> of it);
  \<^item> \<open>lock_call\<close> is what the call \<open>g._lock()\<close> of \<open>clear_metrics\<close> does: \<open>Inr ()\<close> when
    it returns a context manager that can be entered, \<open>Inl e\<close> when it raises \<open>e\<close>.
\<close>

datatype pollutant = POLLUTANT_PM25 | POLLUTANT_PM10 | POLLUTANT_O3_8H

datatype algo = ALGO_EPA | ALGO_MEP

record response =
  status_code :: int
  resp_json :: "pyval option"

record env =
  http_get :: "nat \<Rightarrow> string \<Rightarrow> string \<Rightarrow> exn + response"
  loads :: "string \<Rightarrow> pyval option"
  float_of_str :: "string \<Rightarrow> real option"
  str_of :: "pyval \<Rightarrow> string"
  to_iaqi :: "pollutant \<Rightarrow> real \<Rightarrow> algo \<Rightarrow> exn + real"
  lock_call :: "exn + unit"

text \<open>\<open>json.loads(x)\<close>: the argument must be text.\<close>

fun json_loads :: "env \<Rightarrow> pyval \<Rightarrow> exn + pyval" where
  "json_loads E (PStr s) = (case loads E s of None \<Rightarrow> Inl ValueError | Some v \<Rightarrow> Inr v)"
| "json_loads E _ = Inl TypeError"

text \<open>\<open>float(x)\<close>.\<close>

fun py_float :: "env \<Rightarrow> pyval \<Rightarrow> exn + real" where
  "py_float E (PInt i) = Inr (real_of_int i)"
| "py_float E (PFloat r) = Inr r"
| "py_float E (PBool b) = Inr (if b then 1 else 0)"
| "py_float E (PStr s) = (case float_of_str E s of None \<Rightarrow> Inl ValueError | Some r \<Rightarrow> Inr r)"
| "py_float E _ = Inl TypeError"

section \<open>The gauges\<close>

text \<open>
  A labelled gauge of the metrics library keeps its children in the dictionary
  \<open>_metrics\<close>, keyed by the tuple of the label values as strings. \<open>labels(...)\<close> creates
  the child, with value 0, when the key is new; \<open>set\<close> stores a value in the child;
  \<open>remove\<close> deletes the key with \<open>del\<close>, which raises \<open>KeyError\<close> when the key is
  missing: the behaviour the handler at the end of \<open>check_sensor\<close> is written for.
\<close>

type_synonym labelkey = "string \<times> string \<times> string"

type_synonym gauge = "labelkey \<rightharpoonup> real"

definition gauge_labels :: "gauge \<Rightarrow> labelkey \<Rightarrow> gauge" where
  "gauge_labels g k = (if g k = None then g(k \<mapsto> 0) else g)"

definition gauge_set :: "gauge \<Rightarrow> labelkey \<Rightarrow> real \<Rightarrow> gauge" where
  "gauge_set g k v = g(k \<mapsto> v)"

definition gauge_remove :: "gauge \<Rightarrow> labelkey \<Rightarrow> exn + gauge" where
  "gauge_remove g k = (if g k = None then Inl KeyError else Inr (g(k := None)))"

text \<open>
  The state of the process: the six module-level gauges, and the requests sent so far
  (the URL and the \<open>X-API-Key\<close> header of each).
\<close>

record state =
  aqi_g :: gauge
  aqi_AQandU_g :: gauge
  aqi_LRAPA_g :: gauge
  temp_g :: gauge
  humidity_g :: gauge
  pressure_g :: gauge
  requests :: "(string \<times> string) list"

text \<open>
  A statement runs on a state and either completes (\<open>None\<close>) or raises (\<open>Some e\<close>); the
  state is the one reached at that point.
\<close>

type_synonym stmt = "state \<Rightarrow> exn option \<times> state"

definition seq :: "stmt \<Rightarrow> stmt \<Rightarrow> stmt" where
  "seq f g st = (case f st of (Some e, st1) \<Rightarrow> (Some e, st1) | (None, st1) \<Rightarrow> g st1)"

definition run_if :: "bool \<Rightarrow> stmt \<Rightarrow> stmt" where
  "run_if b f st = (if b then f st else (None, st))"

section \<open>clear_metrics\<close>

text \<open>
  For each of the six gauges, \<open>with g._lock():\<close> first calls the attribute \<open>_lock\<close> of the
  gauge, then enters what the call returns and clears \<open>_metrics\<close>. An exception of the
  call leaves the loop before the gauge at hand is cleared.
\<close>

fun clear_gauges :: "env \<Rightarrow> ((gauge \<Rightarrow> gauge) \<Rightarrow> state \<Rightarrow> state) list \<Rightarrow> stmt" where
  "clear_gauges E [] st = (None, st)"
| "clear_gauges E (g_update # gs) st =
     (case lock_call E of
        Inl e \<Rightarrow> (Some e, st)
      | Inr _ \<Rightarrow> clear_gauges E gs (g_update (\<lambda>_. Map.empty) st))"

definition clear_metrics :: "env \<Rightarrow> stmt" where
  "clear_metrics E =
     clear_gauges E [aqi_g_update, aqi_AQandU_g_update, aqi_LRAPA_g_update,
                   temp_g_update, pressure_g_update, humidity_g_update]"

section \<open>check_sensor\<close>

text \<open>Lines 106 to 130: the three index values of one 10-minute average.\<close>

definition export_aqi :: "env \<Rightarrow> labelkey \<Rightarrow> pyval \<Rightarrow> stmt" where
  "export_aqi E key pm25_10min_raw st =
     (case py_float E pm25_10min_raw of
        Inl e \<Rightarrow> (Some e, st)
      | Inr f \<Rightarrow>
          let pm25_10min = max f 0 in
          (case to_iaqi E POLLUTANT_PM25 pm25_10min ALGO_EPA of
             Inl e \<Rightarrow> (Some e, st)
           | Inr i_aqi \<Rightarrow>
               let st1 = st\<lparr>aqi_g := gauge_set (gauge_labels (aqi_g st) key) key i_aqi\<rparr>;
                   pm25_10min_AQandU = 0.778 * pm25_10min + 2.65
               in
               (case to_iaqi E POLLUTANT_PM25 pm25_10min_AQandU ALGO_EPA of
                  Inl e \<Rightarrow> (Some e, st1)
                | Inr i_aqi_AQandU \<Rightarrow>
                    let st2 = st1\<lparr>aqi_AQandU_g :=
                                 gauge_set (gauge_labels (aqi_AQandU_g st1) key) key i_aqi_AQandU\<rparr>;
                        pm25_10min_LRAPA = max (0.5 * pm25_10min - 0.66) 0
                    in
                    (case to_iaqi E POLLUTANT_PM25 pm25_10min_LRAPA ALGO_EPA of
                       Inl e \<Rightarrow> (Some e, st2)
                     | Inr i_aqi_LRAPA \<Rightarrow>
                         (None, st2\<lparr>aqi_LRAPA_g :=
                                  gauge_set (gauge_labels (aqi_LRAPA_g st2) key) key i_aqi_LRAPA\<rparr>)))))"

text \<open>
  \<open>g.labels(...).set(float(x))\<close>: the child is created first, then the argument is
  evaluated, then the value is stored.
\<close>

definition export_temp :: "env \<Rightarrow> labelkey \<Rightarrow> pyval \<Rightarrow> stmt" where
  "export_temp E key temp_f st =
     (let st1 = st\<lparr>temp_g := gauge_labels (temp_g st) key\<rparr> in
      case py_float E temp_f of
        Inl e \<Rightarrow> (Some e, st1)
      | Inr v \<Rightarrow> (None, st1\<lparr>temp_g := gauge_set (temp_g st1) key v\<rparr>))"

definition export_pressure :: "env \<Rightarrow> labelkey \<Rightarrow> pyval \<Rightarrow> stmt" where
  "export_pressure E key pressure st =
     (let st1 = st\<lparr>pressure_g := gauge_labels (pressure_g st) key\<rparr> in
      case py_float E pressure of
        Inl e \<Rightarrow> (Some e, st1)
      | Inr v \<Rightarrow> (None, st1\<lparr>pressure_g := gauge_set (pressure_g st1) key v\<rparr>))"

definition export_humidity :: "env \<Rightarrow> labelkey \<Rightarrow> pyval \<Rightarrow> stmt" where
  "export_humidity E key humidity st =
     (let st1 = st\<lparr>humidity_g := gauge_labels (humidity_g st) key\<rparr> in
      case py_float E humidity of
        Inl e \<Rightarrow> (Some e, st1)
      | Inr v \<Rightarrow> (None, st1\<lparr>humidity_g := gauge_set (humidity_g st1) key v\<rparr>))"

text \<open>Lines 102 to 146: the body of the \<open>try\<close>.\<close>

definition try_body :: "env \<Rightarrow> labelkey \<Rightarrow> pyval \<Rightarrow> pyval \<Rightarrow> pyval \<Rightarrow> pyval \<Rightarrow> stmt" where
  "try_body E key stats temp_f humidity pressure st =
     (if truthy stats then
        (case json_loads E stats of
           Inl e \<Rightarrow> (Some e, st)
         | Inr stats' \<Rightarrow>
             (case py_get stats' ''pm2.5_10minute'' of
                Inl e \<Rightarrow> (Some e, st)
              | Inr pm25_10min_raw \<Rightarrow>
                  seq (run_if (truthy pm25_10min_raw) (export_aqi E key pm25_10min_raw))
                 (seq (run_if (truthy temp_f) (export_temp E key temp_f))
                 (seq (run_if (truthy pressure) (export_pressure E key pressure))
                      (run_if (truthy humidity) (export_humidity E key humidity)))) st))
      else (None, st))"

text \<open>
  Lines 148 to 158: the six removals stand in one \<open>try\<close>, so the first \<open>KeyError\<close> ends
  them.
\<close>

definition remove_metrics :: "labelkey \<Rightarrow> state \<Rightarrow> state" where
  "remove_metrics key st =
     (case gauge_remove (aqi_g st) key of
        Inl _ \<Rightarrow> st
      | Inr g1 \<Rightarrow>
     let st1 = st\<lparr>aqi_g := g1\<rparr> in
     (case gauge_remove (aqi_AQandU_g st1) key of
        Inl _ \<Rightarrow> st1
      | Inr g2 \<Rightarrow>
     let st2 = st1\<lparr>aqi_AQandU_g := g2\<rparr> in
     (case gauge_remove (aqi_LRAPA_g st2) key of
        Inl _ \<Rightarrow> st2
      | Inr g3 \<Rightarrow>
     let st3 = st2\<lparr>aqi_LRAPA_g := g3\<rparr> in
     (case gauge_remove (temp_g st3) key of
        Inl _ \<Rightarrow> st3
      | Inr g4 \<Rightarrow>
     let st4 = st3\<lparr>temp_g := g4\<rparr> in
     (case gauge_remove (pressure_g st4) key of
        Inl _ \<Rightarrow> st4
      | Inr g5 \<Rightarrow>
     let st5 = st4\<lparr>pressure_g := g5\<rparr> in
     (case gauge_remove (humidity_g st5) key of
        Inl _ \<Rightarrow> st5
      | Inr g6 \<Rightarrow> st5\<lparr>humidity_g := g6\<rparr>))))))"

text \<open>The label values of a record, as the gauges key them.\<close>

definition sensor_key :: "env \<Rightarrow> string \<Rightarrow> (string \<times> pyval) list \<Rightarrow> labelkey" where
  "sensor_key E parent_sensor_id kvs =
     (parent_sensor_id, str_of E (dict_get kvs ''sensor_index''), str_of E (dict_get kvs ''name''))"

text \<open>
  Lines 95 to 159: the body of \<open>for sensor in ...\<close>. The six \<open>sensor.get\<close> stand before
  the \<open>try\<close>: on a value that is no dictionary the first of them raises, and nothing is
  removed.
\<close>

fun sensor_body :: "env \<Rightarrow> string \<Rightarrow> pyval \<Rightarrow> stmt" where
  "sensor_body E parent_sensor_id (PDict kvs) st =
     (let key = sensor_key E parent_sensor_id kvs;
          stats = dict_get kvs ''stats'';
          temp_f = dict_get kvs ''temperature'';
          humidity = dict_get kvs ''humidity'';
          pressure = dict_get kvs ''pressure''
      in case try_body E key stats temp_f humidity pressure st of
           (None, st1) \<Rightarrow> (None, st1)
         | (Some e, st1) \<Rightarrow> (Some e, remove_metrics key st1))"
| "sensor_body E parent_sensor_id _ st = (Some AttributeError, st)"

fun sensor_loop :: "env \<Rightarrow> string \<Rightarrow> pyval list \<Rightarrow> stmt" where
  "sensor_loop E parent_sensor_id [] st = (None, st)"
| "sensor_loop E parent_sensor_id (sensor # sensors) st =
     (case sensor_body E parent_sensor_id sensor st of
        (Some e, st1) \<Rightarrow> (Some e, st1)
      | (None, st1) \<Rightarrow> sensor_loop E parent_sensor_id sensors st1)"

definition sensor_url :: "string \<Rightarrow> string option \<Rightarrow> string" where
  "sensor_url parent_sensor_id private_sensor_key =
     (case private_sensor_key of
        Some k \<Rightarrow> ''https://api.purpleair.com/v1/sensors/'' @ parent_sensor_id @ ''?read_key='' @ k
      | None \<Rightarrow> ''https://api.purpleair.com/v1/sensors/'' @ parent_sensor_id)"

text \<open>\<open>clear_metrics(); raise\<close>: an exception of \<open>clear_metrics\<close> replaces the one to raise.\<close>

definition clear_then_raise :: "env \<Rightarrow> exn \<Rightarrow> stmt" where
  "clear_then_raise E e st =
     (case clear_metrics E st of
        (Some e', st1) \<Rightarrow> (Some e', st1)
      | (None, st1) \<Rightarrow> (Some e, st1))"

definition check_sensor :: "env \<Rightarrow> string \<Rightarrow> string \<Rightarrow> string option \<Rightarrow> stmt" where
  "check_sensor E read_api_key parent_sensor_id private_sensor_key st =
     (let url = sensor_url parent_sensor_id private_sensor_key;
          st0 = st\<lparr>requests := requests st @ [(url, read_api_key)]\<rparr>
      in case http_get E (length (requests st)) url read_api_key of
           Inl e \<Rightarrow> (Some e, st0)
         | Inr resp \<Rightarrow>
             if status_code resp < 200 \<or> status_code resp > 299
             then clear_then_raise E (StatusError (status_code resp)) st0
             else (case resp_json resp of
                     None \<Rightarrow> clear_then_raise E ValueError st0
                   | Some resp_json' \<Rightarrow>
                       (case py_get resp_json' ''sensor'' of
                          Inl e \<Rightarrow> (Some e, st0)
                        | Inr ss \<Rightarrow>
                            (case py_iter ss of
                               Inl e \<Rightarrow> (Some e, st0)
                             | Inr sensors \<Rightarrow> sensor_loop E parent_sensor_id sensors st0))))"

section \<open>poll\<close>

text \<open>
  A call of \<open>check_sensor\<close> with positional arguments: the first two parameters have no
  default, so a call with fewer than two arguments (or more than three) raises
  \<open>TypeError\<close> before the body runs.
\<close>

fun call_check_sensor :: "env \<Rightarrow> string list \<Rightarrow> stmt" where
  "call_check_sensor E [read_api_key, parent_sensor_id] st =
     check_sensor E read_api_key parent_sensor_id None st"
| "call_check_sensor E [read_api_key, parent_sensor_id, private_sensor_key] st =
     check_sensor E read_api_key parent_sensor_id (Some private_sensor_key) st"
| "call_check_sensor E _ st = (Some TypeError, st)"

text \<open>
  The \<open>for\<close> loop of \<open>poll\<close>: any exception of the call is printed and breaks the loop.
  The call made for each sensor id is a parameter here; \<open>poll_tick\<close> below gives it.
\<close>

fun poll_for :: "(string \<Rightarrow> stmt) \<Rightarrow> string list \<Rightarrow> state \<Rightarrow> state" where
  "poll_for call [] st = st"
| "poll_for call (sensor_id # sensor_ids) st =
     (case call sensor_id st of
        (Some e, st1) \<Rightarrow> st1
      | (None, st1) \<Rightarrow> poll_for call sensor_ids st1)"

text \<open>One turn of \<open>while True\<close>: the call is \<open>check_sensor(sensor_id)\<close>.\<close>

definition poll_tick :: "env \<Rightarrow> string list \<Rightarrow> state \<Rightarrow> state" where
  "poll_tick E sensor_ids st = poll_for (\<lambda>sensor_id. call_check_sensor E [sensor_id]) sensor_ids st"

text \<open>\<open>poll\<close> never returns; \<open>poll n\<close> is the state after \<open>n\<close> turns of its loop.\<close>

fun poll :: "nat \<Rightarrow> env \<Rightarrow> string list \<Rightarrow> state \<Rightarrow> state" where
  "poll 0 E sensor_ids st = st"
| "poll (Suc n) E sensor_ids st = poll n E sensor_ids (poll_tick E sensor_ids st)"

section \<open>Reading the registry, and inputs for the examples\<close>

text \<open>The six entries of one identity, in the order the gauges are declared.\<close>

definition metrics_at :: "state \<Rightarrow> labelkey \<Rightarrow> real option list" where
  "metrics_at st k =
     [aqi_g st k, aqi_AQandU_g st k, aqi_LRAPA_g st k, temp_g st k, humidity_g st k, pressure_g st k]"

text \<open>
  An environment for the examples: every request gets the response \<open>r\<close>, the parser
  knows three texts, \<open>str\<close> is right on strings and on \<open>None\<close> (the examples use no other
  label value), and the index of a concentration is the concentration itself. The call
  \<open>g._lock()\<close> raises \<open>TypeError\<close>, as it does with the metrics library: the library
  stores a \<open>threading.Lock\<close> object in \<open>_lock\<close> and enters it with \<open>with self._lock:\<close>; a
  lock object is not callable.
\<close>

definition ex_str :: "pyval \<Rightarrow> string" where
  "ex_str v = (case v of PStr s \<Rightarrow> s | _ \<Rightarrow> ''None'')"

definition ex_loads :: "string \<Rightarrow> pyval option" where
  \<open>ex_loads s =
     (if s = ''{}'' then Some (PDict [])
      else if s = ''{"pm2.5_10minute": 12.0}'' then Some (PDict [(''pm2.5_10minute'', PFloat 12.0)])
      else if s = ''{"pm2.5_10minute": 0.0}'' then Some (PDict [(''pm2.5_10minute'', PFloat 0.0)])
      else None)\<close>

definition ex_env :: "exn + response \<Rightarrow> env" where
  "ex_env r = \<lparr>http_get = (\<lambda>n url key. r), loads = ex_loads, float_of_str = (\<lambda>s. None),
               str_of = ex_str, to_iaqi = (\<lambda>p c a. Inr c), lock_call = Inl TypeError\<rparr>"

text \<open>
  The conversion of the AQI library for PM2.5 under the EPA algorithm, for the examples:
  the concentration is cut to one decimal (rounding down), the breakpoint interval that
  holds it is looked up, the index is interpolated linearly and rounded to an integer,
  halves to the even one. A concentration in no interval raises \<open>IndexError\<close>. The
  decimal arithmetic of the library is read as exact.
\<close>

definition round_down1 :: "real \<Rightarrow> real" where
  "round_down1 c = real_of_int \<lfloor>c * 10\<rfloor> / 10"

definition round_half_even :: "real \<Rightarrow> real" where
  "round_half_even x =
     (let f = \<lfloor>x\<rfloor>; d = x - real_of_int f
      in if d < 1 / 2 then real_of_int f
         else if 1 / 2 < d then real_of_int (f + 1)
         else if even f then real_of_int f else real_of_int (f + 1))"

definition epa_pm25_table :: "((real \<times> real) \<times> (real \<times> real)) list" where
  "epa_pm25_table =
     [((0.0, 12.0), (0, 50)), ((12.1, 35.4), (51, 100)), ((35.5, 55.4), (101, 150)),
      ((55.5, 150.4), (151, 200)), ((150.5, 250.4), (201, 300)), ((250.5, 350.4), (301, 400)),
      ((350.5, 500.4), (401, 500))]"

fun epa_lookup :: "real \<Rightarrow> ((real \<times> real) \<times> (real \<times> real)) list \<Rightarrow> exn + real" where
  "epa_lookup cc [] = Inl (LibError ''IndexError'')"
| "epa_lookup cc (((bplo, bphi), (aqilo, aqihi)) # rest) =
     (if bplo \<le> cc \<and> cc \<le> bphi
      then Inr (round_half_even ((aqihi - aqilo) / (bphi - bplo) * (cc - bplo) + aqilo))
      else epa_lookup cc rest)"

definition epa_pm25_iaqi :: "real \<Rightarrow> exn + real" where
  "epa_pm25_iaqi c = epa_lookup (round_down1 c) epa_pm25_table"

definition epa_env :: "exn + response \<Rightarrow> env" where
  "epa_env r = \<lparr>http_get = (\<lambda>n url key. r), loads = ex_loads, float_of_str = (\<lambda>s. None),
                str_of = ex_str, to_iaqi = (\<lambda>p c a. epa_pm25_iaqi c), lock_call = Inl TypeError\<rparr>"

definition ex_state :: state where
  "ex_state = \<lparr>aqi_g = Map.empty, aqi_AQandU_g = Map.empty, aqi_LRAPA_g = Map.empty,
                temp_g = Map.empty, humidity_g = Map.empty, pressure_g = Map.empty, requests = []\<rparr>"

lemmas ex_defs = ex_env_def ex_state_def ex_loads_def ex_str_def

lemmas body_defs = sensor_key_def dict_get_def try_body_def seq_def run_if_def export_aqi_def
  export_temp_def export_pressure_def export_humidity_def gauge_set_def gauge_labels_def
  remove_metrics_def gauge_remove_def Let_def

section \<open>The poll loop never reaches the fetch\<close>

lemma call_check_sensor_one: "call_check_sensor E [sensor_id] st = (Some TypeError, st)"
  by simp

lemma poll_tick_id: "poll_tick E sensor_ids st = st"
  by (cases sensor_ids) (simp_all add: poll_tick_def)

lemma poll_id: "poll n E sensor_ids st = st"
  by (induction n) (simp_all add: poll_tick_id)

lemma poll_for_break: "call sensor_id st = (Some e, st1) \<Longrightarrow> poll_for call (sensor_id # sensor_ids) st = st1"
  by simp

text \<open>
  Claim C1. On every tick the poll loop should call the fetch with the read API key, the
  parent sensor id and its optional private key, for every configured sensor. The loop
  calls \<open>check_sensor(sensor_id)\<close> with one argument, while \<open>check_sensor\<close> has two
  parameters without default: each call raises \<open>TypeError\<close> before any request is sent,
  the first one ends the tick, and the state (gauges and requests) never changes, for any
  number of ticks.
\<close>

theorem poll_sends_no_request:
  "call_check_sensor E [sensor_id] st = (Some TypeError, st) \<and>
   poll_tick E (sensor_id # sensor_ids) st = st \<and>
   requests (poll n E (sensor_id # sensor_ids) st) = requests st"
  by (simp add: poll_tick_id poll_id)

section \<open>Fetch failures\<close>

text \<open>When the call of the lock raises, nothing is cleared and its exception propagates.\<close>

lemma clear_metrics_raises: "lock_call E = Inl e' \<Longrightarrow> clear_metrics E st = (Some e', st)"
  by (simp add: clear_metrics_def)

lemma clear_then_raise_lock: "lock_call E = Inl e' \<Longrightarrow> clear_then_raise E e st = (Some e', st)"
  by (simp add: clear_then_raise_def clear_metrics_raises)

lemma check_sensor_fetch_failure:
  assumes "http_get E (length (requests st)) (sensor_url pid priv) api_key = Inr resp"
      and "status_code resp < 200 \<or> status_code resp > 299 \<or> resp_json resp = None"
      and "lock_call E = Inl e'"
  shows "check_sensor E api_key pid priv st =
           (Some e', st\<lparr>requests := requests st @ [(sensor_url pid priv, api_key)]\<rparr>)"
  using assms by (auto simp add: check_sensor_def clear_then_raise_lock Let_def)

text \<open>
  Were \<open>_lock\<close> callable, \<open>clear_metrics\<close> would empty the six gauges and the exception of
  the failed fetch would propagate.
\<close>

lemma clear_metrics_callable:
  "lock_call E = Inr u \<Longrightarrow>
   clear_metrics E st =
     (None, st\<lparr>aqi_g := Map.empty, aqi_AQandU_g := Map.empty, aqi_LRAPA_g := Map.empty,
               temp_g := Map.empty, pressure_g := Map.empty, humidity_g := Map.empty\<rparr>)"
  by (simp add: clear_metrics_def)

lemma clear_then_raise_callable:
  "lock_call E = Inr u \<Longrightarrow>
   clear_then_raise E e st =
     (Some e, st\<lparr>aqi_g := Map.empty, aqi_AQandU_g := Map.empty, aqi_LRAPA_g := Map.empty,
                 temp_g := Map.empty, pressure_g := Map.empty, humidity_g := Map.empty\<rparr>)"
  by (simp add: clear_then_raise_def clear_metrics_callable)

lemma check_sensor_runs_loop:
  assumes "http_get E (length (requests st)) (sensor_url pid priv) api_key = Inr resp"
      and "200 \<le> status_code resp" and "status_code resp \<le> 299"
      and "resp_json resp = Some (PDict body)"
      and "dict_get body ''sensor'' = PList sensors"
  shows "check_sensor E api_key pid priv st =
           sensor_loop E pid sensors (st\<lparr>requests := requests st @ [(sensor_url pid priv, api_key)]\<rparr>)"
  using assms by (simp add: check_sensor_def Let_def)

text \<open>
  Claim C2. On a fetch failure (a status outside 200..299, or a body that does not
  parse) \<open>clear_metrics\<close> should empty the six gauges before the error propagates. It is
  called, but \<open>g._lock()\<close> raises \<open>TypeError\<close> for the first gauge: here a registry that
  holds a temperature for one identity keeps it, for a response with status 500 and for
  a response with status 200 and no JSON body, and the exception that leaves
  \<open>check_sensor\<close> is the \<open>TypeError\<close>.
\<close>

theorem fetch_failure_clears_nothing:
  "check_sensor (ex_env (Inr \<lparr>status_code = 500, resp_json = None\<rparr>)) ''KEY'' ''1'' None
     (ex_state\<lparr>temp_g := [(''1'', ''2'', ''S'') \<mapsto> 70]\<rparr>) =
     (Some TypeError,
      ex_state\<lparr>temp_g := [(''1'', ''2'', ''S'') \<mapsto> 70],
               requests := [(''https://api.purpleair.com/v1/sensors/1'', ''KEY'')]\<rparr>) \<and>
   check_sensor (ex_env (Inr \<lparr>status_code = 200, resp_json = None\<rparr>)) ''KEY'' ''1'' None
     (ex_state\<lparr>temp_g := [(''1'', ''2'', ''S'') \<mapsto> 70]\<rparr>) =
     (Some TypeError,
      ex_state\<lparr>temp_g := [(''1'', ''2'', ''S'') \<mapsto> 70],
               requests := [(''https://api.purpleair.com/v1/sensors/1'', ''KEY'')]\<rparr>)"
  by (simp add: check_sensor_def clear_then_raise_def clear_metrics_def sensor_url_def ex_defs)

section \<open>What one record may change\<close>

lemma remove_metrics_other: "k \<noteq> key \<Longrightarrow> metrics_at (remove_metrics key st) k = metrics_at st k"
  by (simp add: remove_metrics_def metrics_at_def gauge_remove_def Let_def)

lemma export_aqi_other:
  "k \<noteq> key \<Longrightarrow> metrics_at (snd (export_aqi E key raw st)) k = metrics_at st k"
  by (simp add: export_aqi_def metrics_at_def gauge_set_def gauge_labels_def Let_def
      split: sum.splits)

lemma export_temp_other:
  "k \<noteq> key \<Longrightarrow> metrics_at (snd (export_temp E key raw st)) k = metrics_at st k"
  by (simp add: export_temp_def metrics_at_def gauge_set_def gauge_labels_def Let_def
      split: sum.splits)

lemma export_pressure_other:
  "k \<noteq> key \<Longrightarrow> metrics_at (snd (export_pressure E key raw st)) k = metrics_at st k"
  by (simp add: export_pressure_def metrics_at_def gauge_set_def gauge_labels_def Let_def
      split: sum.splits)

lemma export_humidity_other:
  "k \<noteq> key \<Longrightarrow> metrics_at (snd (export_humidity E key raw st)) k = metrics_at st k"
  by (simp add: export_humidity_def metrics_at_def gauge_set_def gauge_labels_def Let_def
      split: sum.splits)

lemma seq_other:
  assumes "\<And>s. metrics_at (snd (f s)) k = metrics_at s k"
      and "\<And>s. metrics_at (snd (g s)) k = metrics_at s k"
  shows "metrics_at (snd (seq f g st)) k = metrics_at st k"
proof (cases "f st")
  case (Pair r st1)
  from assms(1) [of st] Pair have eq: "metrics_at st1 k = metrics_at st k" by simp
  show ?thesis
  proof (cases r)
    case None
    with Pair have "seq f g st = g st1" by (simp add: seq_def)
    with assms(2) [of st1] eq show ?thesis by simp
  next
    case (Some e)
    with Pair have "seq f g st = (Some e, st1)" by (simp add: seq_def)
    with eq show ?thesis by simp
  qed
qed

lemma run_if_other:
  assumes "\<And>s. metrics_at (snd (f s)) k = metrics_at s k"
  shows "metrics_at (snd (run_if b f st)) k = metrics_at st k"
  using assms by (simp add: run_if_def)

lemma try_body_other:
  assumes "k \<noteq> key"
  shows "metrics_at (snd (try_body E key stats T H P st)) k = metrics_at st k"
proof -
  have chain: "metrics_at (snd (
      seq (run_if (truthy raw) (export_aqi E key raw))
     (seq (run_if (truthy T) (export_temp E key T))
     (seq (run_if (truthy P) (export_pressure E key P))
          (run_if (truthy H) (export_humidity E key H)))) s)) k = metrics_at s k" for raw s
    by (intro seq_other run_if_other export_aqi_other export_temp_other
          export_pressure_other export_humidity_other assms)
  show ?thesis
    by (simp add: try_body_def chain split: sum.splits)
qed

lemma sensor_body_other:
  assumes "k \<noteq> sensor_key E pid kvs"
  shows "metrics_at (snd (sensor_body E pid (PDict kvs) st)) k = metrics_at st k"
proof -
  let ?key = "sensor_key E pid kvs"
  let ?t = "try_body E ?key (dict_get kvs ''stats'') (dict_get kvs ''temperature'')
              (dict_get kvs ''humidity'') (dict_get kvs ''pressure'') st"
  have t: "metrics_at (snd ?t) k = metrics_at st k"
    by (rule try_body_other [OF assms])
  show ?thesis
  proof (cases ?t)
    case (Pair r st1)
    with t have eq: "metrics_at st1 k = metrics_at st k" by simp
    show ?thesis
    proof (cases r)
      case None
      with Pair eq show ?thesis by (simp add: Let_def)
    next
      case (Some e)
      with Pair eq remove_metrics_other [OF assms, of st1] show ?thesis by (simp add: Let_def)
    qed
  qed
qed

lemma sensor_loop_append:
  "sensor_loop E pid pre st = (None, st1) \<Longrightarrow>
   sensor_loop E pid (pre @ rest) st = sensor_loop E pid rest st1"
proof (induction pre arbitrary: st)
  case Nil
  then show ?case by simp
next
  case (Cons r pre)
  then show ?case
    by (cases "sensor_body E pid r st") (auto split: option.splits)
qed

text \<open>
  Claim C9. When the transform fails on a record of the batch, after the records before
  it were processed, the loop stops with that exception, no later record is processed,
  and for every identity other than the failing record's the six entries are the ones the
  earlier records left: only the failing record's identity can lose entries.
\<close>

theorem transform_failure_keeps_earlier_records:
  assumes "sensor_loop E pid pre st = (None, st1)"
      and "sensor_body E pid (PDict kvs) st1 = (Some e, st2)"
  shows "sensor_loop E pid (pre @ PDict kvs # post) st = (Some e, st2) \<and>
         (\<forall>k. k \<noteq> sensor_key E pid kvs \<longrightarrow> metrics_at st2 k = metrics_at st1 k)"
proof -
  have "sensor_loop E pid (pre @ PDict kvs # post) st = sensor_loop E pid (PDict kvs # post) st1"
    by (rule sensor_loop_append [OF assms(1)])
  also have "\<dots> = (Some e, st2)"
    using assms(2) by simp
  finally have a: "sensor_loop E pid (pre @ PDict kvs # post) st = (Some e, st2)" .
  have b: "metrics_at st2 k = metrics_at st1 k" if "k \<noteq> sensor_key E pid kvs" for k
    using sensor_body_other [OF that, of st1] assms(2) by simp
  from a b show ?thesis by blast
qed

text \<open>
  The batch of the example: a record of identity \<open>A\<close> with a temperature, then a record of
  identity \<open>B\<close> whose statistics text does not parse, then a third record. The loop stops
  at the second with \<open>ValueError\<close>, and the temperature of \<open>A\<close> is still exported.
\<close>

theorem transform_failure_keeps_earlier_records_witness:
  "sensor_loop (ex_env (Inl TypeError)) ''1''
     ([PDict [(''sensor_index'', PStr ''A''), (''name'', PStr ''a''), (''stats'', PStr ''{}''),
              (''temperature'', PInt 70)]] @
      PDict [(''sensor_index'', PStr ''B''), (''name'', PStr ''b''), (''stats'', PStr ''not json'')] #
      [PDict [(''sensor_index'', PStr ''C''), (''name'', PStr ''c''), (''stats'', PStr ''{}''),
              (''temperature'', PInt 50)]]) ex_state =
     (Some ValueError, ex_state\<lparr>temp_g := [(''1'', ''A'', ''a'') \<mapsto> 70]\<rparr>) \<and>
   metrics_at (ex_state\<lparr>temp_g := [(''1'', ''A'', ''a'') \<mapsto> 70]\<rparr>) (''1'', ''A'', ''a'') =
     [None, None, None, Some 70, None, None]"
proof -
  let ?E = "ex_env (Inl TypeError)"
  let ?st1 = "ex_state\<lparr>temp_g := [(''1'', ''A'', ''a'') \<mapsto> 70]\<rparr>"
  have h1: "sensor_loop ?E ''1''
      [PDict [(''sensor_index'', PStr ''A''), (''name'', PStr ''a''), (''stats'', PStr ''{}''),
              (''temperature'', PInt 70)]] ex_state = (None, ?st1)"
    by (simp add: body_defs ex_defs)
  have h2: "sensor_body ?E ''1''
      (PDict [(''sensor_index'', PStr ''B''), (''name'', PStr ''b''), (''stats'', PStr ''not json'')])
      ?st1 = (Some ValueError, ?st1)"
    by (simp add: body_defs ex_defs)
  have k: "(''1'', ''A'', ''a'') \<noteq>
      sensor_key ?E ''1'' [(''sensor_index'', PStr ''B''), (''name'', PStr ''b''), (''stats'', PStr ''not json'')]"
    by (simp add: body_defs ex_defs)
  from transform_failure_keeps_earlier_records [OF h1 h2] k show ?thesis
    by (simp add: metrics_at_def ex_defs)
qed

section \<open>A record without statistics\<close>

text \<open>
  Claim C7. For a record with no statistics blob (the key is missing, or its value is
  \<open>None\<close>) the transform completes without an exception and the state it leaves is the
  state it found: no entry is set, and every value set before stays, for the three PM2.5
  metrics and for every other.
\<close>

theorem no_stats_changes_nothing:
  assumes "dict_get kvs ''stats'' = PNone"
  shows "sensor_body E pid (PDict kvs) st = (None, st)"
  using assms by (simp add: try_body_def)

theorem no_stats_changes_nothing_witness:
  "dict_get [(''sensor_index'', PStr ''2''), (''name'', PStr ''S''), (''temperature'', PFloat 72.5)]
     ''stats'' = PNone \<and>
   sensor_body (ex_env (Inl TypeError)) ''1''
     (PDict [(''sensor_index'', PStr ''2''), (''name'', PStr ''S''), (''temperature'', PFloat 72.5)])
     (ex_state\<lparr>aqi_g := [(''1'', ''2'', ''S'') \<mapsto> 42]\<rparr>) =
     (None, ex_state\<lparr>aqi_g := [(''1'', ''2'', ''S'') \<mapsto> 42]\<rparr>)"
proof -
  have h: "dict_get [(''sensor_index'', PStr ''2''), (''name'', PStr ''S''),
      (''temperature'', PFloat 72.5)] ''stats'' = PNone"
    by (simp add: dict_get_def)
  from h no_stats_changes_nothing [OF h] show ?thesis by simp
qed

section \<open>Temperature, humidity and pressure\<close>

lemma seq_NoneD: "seq f g st = (None, st') \<Longrightarrow> \<exists>st1. f st = (None, st1) \<and> g st1 = (None, st')"
  by (auto simp add: seq_def split: prod.splits option.splits)

lemma export_aqi_environment:
  "temp_g (snd (export_aqi E key raw st)) = temp_g st \<and>
   humidity_g (snd (export_aqi E key raw st)) = humidity_g st \<and>
   pressure_g (snd (export_aqi E key raw st)) = pressure_g st"
  by (simp add: export_aqi_def Let_def split: sum.splits)

lemma export_temp_NoneD:
  "export_temp E key T st = (None, st') \<Longrightarrow>
   (case py_float E T of Inr v \<Rightarrow> st' = st\<lparr>temp_g := (temp_g st)(key \<mapsto> v)\<rparr> | Inl e \<Rightarrow> False)"
  by (auto simp add: export_temp_def gauge_set_def gauge_labels_def Let_def split: sum.splits)

lemma export_pressure_NoneD:
  "export_pressure E key P st = (None, st') \<Longrightarrow>
   (case py_float E P of Inr v \<Rightarrow> st' = st\<lparr>pressure_g := (pressure_g st)(key \<mapsto> v)\<rparr> | Inl e \<Rightarrow> False)"
  by (auto simp add: export_pressure_def gauge_set_def gauge_labels_def Let_def split: sum.splits)

lemma export_humidity_NoneD:
  "export_humidity E key H st = (None, st') \<Longrightarrow>
   (case py_float E H of Inr v \<Rightarrow> st' = st\<lparr>humidity_g := (humidity_g st)(key \<mapsto> v)\<rparr> | Inl e \<Rightarrow> False)"
  by (auto simp add: export_humidity_def gauge_set_def gauge_labels_def Let_def split: sum.splits)

lemma try_body_environment:
  assumes ok: "try_body E key S T H P st = (None, st')"
      and s: "S = PNone \<or> truthy S"
      and t: "T = PNone \<or> truthy T"
      and h: "H = PNone \<or> truthy H"
      and p: "P = PNone \<or> truthy P"
  shows "(if S \<noteq> PNone \<and> T \<noteq> PNone
          then (case py_float E T of Inr v \<Rightarrow> temp_g st' = (temp_g st)(key \<mapsto> v) | Inl e \<Rightarrow> False)
          else temp_g st' = temp_g st) \<and>
         (if S \<noteq> PNone \<and> H \<noteq> PNone
          then (case py_float E H of Inr v \<Rightarrow> humidity_g st' = (humidity_g st)(key \<mapsto> v) | Inl e \<Rightarrow> False)
          else humidity_g st' = humidity_g st) \<and>
         (if S \<noteq> PNone \<and> P \<noteq> PNone
          then (case py_float E P of Inr v \<Rightarrow> pressure_g st' = (pressure_g st)(key \<mapsto> v) | Inl e \<Rightarrow> False)
          else pressure_g st' = pressure_g st)"
proof (cases "S = PNone")
  case True
  with ok have "st' = st" by (simp add: try_body_def)
  with True show ?thesis by simp
next
  case False
  with s have ts: "truthy S" by simp
  from t have tt: "truthy T = (T \<noteq> PNone)" by auto
  from h have th: "truthy H = (H \<noteq> PNone)" by auto
  from p have tp: "truthy P = (P \<noteq> PNone)" by auto
  from ok ts obtain raw where chain:
    "seq (run_if (truthy raw) (export_aqi E key raw))
    (seq (run_if (truthy T) (export_temp E key T))
    (seq (run_if (truthy P) (export_pressure E key P))
         (run_if (truthy H) (export_humidity E key H)))) st = (None, st')"
    by (auto simp add: try_body_def split: sum.splits)
  from seq_NoneD [OF chain] obtain s1 where
    a: "run_if (truthy raw) (export_aqi E key raw) st = (None, s1)" and
    r1: "seq (run_if (truthy T) (export_temp E key T))
        (seq (run_if (truthy P) (export_pressure E key P))
             (run_if (truthy H) (export_humidity E key H))) s1 = (None, st')"
    by blast
  from seq_NoneD [OF r1] obtain s2 where
    b: "run_if (truthy T) (export_temp E key T) s1 = (None, s2)" and
    r2: "seq (run_if (truthy P) (export_pressure E key P))
             (run_if (truthy H) (export_humidity E key H)) s2 = (None, st')"
    by blast
  from seq_NoneD [OF r2] obtain s3 where
    c: "run_if (truthy P) (export_pressure E key P) s2 = (None, s3)" and
    d: "run_if (truthy H) (export_humidity E key H) s3 = (None, st')"
    by blast
  have a': "temp_g s1 = temp_g st \<and> humidity_g s1 = humidity_g st \<and> pressure_g s1 = pressure_g st"
  proof (cases "truthy raw")
    case True
    with a have "s1 = snd (export_aqi E key raw st)" by (simp add: run_if_def)
    then show ?thesis by (simp add: export_aqi_environment)
  next
    case False
    with a show ?thesis by (simp add: run_if_def)
  qed
  have b': "if T \<noteq> PNone
            then (case py_float E T of Inr v \<Rightarrow> s2 = s1\<lparr>temp_g := (temp_g s1)(key \<mapsto> v)\<rparr> | Inl e \<Rightarrow> False)
            else s2 = s1"
    using b export_temp_NoneD [of E key T s1 s2] by (auto simp add: run_if_def tt)
  have c': "if P \<noteq> PNone
            then (case py_float E P of Inr v \<Rightarrow> s3 = s2\<lparr>pressure_g := (pressure_g s2)(key \<mapsto> v)\<rparr> | Inl e \<Rightarrow> False)
            else s3 = s2"
    using c export_pressure_NoneD [of E key P s2 s3] by (auto simp add: run_if_def tp)
  have d': "if H \<noteq> PNone
            then (case py_float E H of Inr v \<Rightarrow> st' = s3\<lparr>humidity_g := (humidity_g s3)(key \<mapsto> v)\<rparr> | Inl e \<Rightarrow> False)
            else st' = s3"
    using d export_humidity_NoneD [of E key H s3 st'] by (auto simp add: run_if_def th)
  from False a' b' c' d' show ?thesis
    by (auto split: sum.splits if_splits)
qed

lemma sensor_body_NoneD:
  "sensor_body E pid (PDict kvs) st = (None, st') \<Longrightarrow>
   try_body E (sensor_key E pid kvs) (dict_get kvs ''stats'') (dict_get kvs ''temperature'')
     (dict_get kvs ''humidity'') (dict_get kvs ''pressure'') st = (None, st')"
  by (auto simp add: Let_def split: prod.splits option.splits)

text \<open>
  Claim C3, as stated, at a record with temperature 72.5, humidity 40 and pressure 1013
  and no statistics blob: the transform completes, and none of the three is exported.
\<close>

theorem environment_without_stats_not_exported:
  "fst (sensor_body (ex_env (Inl TypeError)) ''1''
     (PDict [(''sensor_index'', PStr ''2''), (''name'', PStr ''S''), (''temperature'', PFloat 72.5),
             (''humidity'', PInt 40), (''pressure'', PInt 1013)]) ex_state) = None \<and>
   metrics_at (snd (sensor_body (ex_env (Inl TypeError)) ''1''
     (PDict [(''sensor_index'', PStr ''2''), (''name'', PStr ''S''), (''temperature'', PFloat 72.5),
             (''humidity'', PInt 40), (''pressure'', PInt 1013)]) ex_state)) (''1'', ''2'', ''S'') =
     [None, None, None, None, None, None]"
  by (simp add: metrics_at_def body_defs ex_defs)

text \<open>
  Claim C3, amended. The three exports stand inside \<open>if stats:\<close>. For a record whose
  transform completes, and whose statistics blob and three raw fields are each absent
  or truthy: each of temperature, humidity and pressure is exported, with the value
  \<open>float\<close> gives for its raw field, exactly when the statistics blob is present and its
  own raw field is present; otherwise its gauge is left as it was. This holds whatever
  the blob says about the PM2.5 average and whatever the other two fields are.
\<close>

theorem environment_exported_inside_stats:
  assumes "sensor_body E pid (PDict kvs) st = (None, st')"
      and "dict_get kvs ''stats'' = PNone \<or> truthy (dict_get kvs ''stats'')"
      and "dict_get kvs ''temperature'' = PNone \<or> truthy (dict_get kvs ''temperature'')"
      and "dict_get kvs ''humidity'' = PNone \<or> truthy (dict_get kvs ''humidity'')"
      and "dict_get kvs ''pressure'' = PNone \<or> truthy (dict_get kvs ''pressure'')"
  shows "(if dict_get kvs ''stats'' \<noteq> PNone \<and> dict_get kvs ''temperature'' \<noteq> PNone
          then (case py_float E (dict_get kvs ''temperature'') of
                  Inr v \<Rightarrow> temp_g st' = (temp_g st)(sensor_key E pid kvs \<mapsto> v)
                | Inl e \<Rightarrow> False)
          else temp_g st' = temp_g st) \<and>
         (if dict_get kvs ''stats'' \<noteq> PNone \<and> dict_get kvs ''humidity'' \<noteq> PNone
          then (case py_float E (dict_get kvs ''humidity'') of
                  Inr v \<Rightarrow> humidity_g st' = (humidity_g st)(sensor_key E pid kvs \<mapsto> v)
                | Inl e \<Rightarrow> False)
          else humidity_g st' = humidity_g st) \<and>
         (if dict_get kvs ''stats'' \<noteq> PNone \<and> dict_get kvs ''pressure'' \<noteq> PNone
          then (case py_float E (dict_get kvs ''pressure'') of
                  Inr v \<Rightarrow> pressure_g st' = (pressure_g st)(sensor_key E pid kvs \<mapsto> v)
                | Inl e \<Rightarrow> False)
          else pressure_g st' = pressure_g st)"
  by (rule try_body_environment [OF sensor_body_NoneD [OF assms(1)] assms(2-5)])

text \<open>
  A record with an empty statistics object as text, a temperature and a pressure, and
  no humidity: the temperature and the pressure are exported, the humidity is not.
\<close>

theorem environment_exported_inside_stats_witness:
  "sensor_body (ex_env (Inl TypeError)) ''1''
     (PDict [(''sensor_index'', PStr ''2''), (''name'', PStr ''S''), (''stats'', PStr ''{}''),
             (''temperature'', PFloat 72.5), (''pressure'', PInt 1013)]) ex_state =
     (None, ex_state\<lparr>temp_g := [(''1'', ''2'', ''S'') \<mapsto> 72.5],
                     pressure_g := [(''1'', ''2'', ''S'') \<mapsto> 1013]\<rparr>) \<and>
   temp_g (ex_state\<lparr>temp_g := [(''1'', ''2'', ''S'') \<mapsto> 72.5],
                    pressure_g := [(''1'', ''2'', ''S'') \<mapsto> 1013]\<rparr>) =
     (temp_g ex_state)((''1'', ''2'', ''S'') \<mapsto> 72.5) \<and>
   humidity_g (ex_state\<lparr>temp_g := [(''1'', ''2'', ''S'') \<mapsto> 72.5],
                        pressure_g := [(''1'', ''2'', ''S'') \<mapsto> 1013]\<rparr>) = humidity_g ex_state"
proof -
  let ?E = "ex_env (Inl TypeError)"
  let ?kvs = "[(''sensor_index'', PStr ''2''), (''name'', PStr ''S''), (''stats'', PStr ''{}''),
               (''temperature'', PFloat 72.5), (''pressure'', PInt 1013)]"
  let ?st' = "ex_state\<lparr>temp_g := [(''1'', ''2'', ''S'') \<mapsto> 72.5],
                       pressure_g := [(''1'', ''2'', ''S'') \<mapsto> 1013]\<rparr>"
  have h1: "sensor_body ?E ''1'' (PDict ?kvs) ex_state = (None, ?st')"
    by (simp add: body_defs ex_defs)
  have h2: "dict_get ?kvs ''stats'' = PNone \<or> truthy (dict_get ?kvs ''stats'')"
    by (simp add: dict_get_def)
  have h3: "dict_get ?kvs ''temperature'' = PNone \<or> truthy (dict_get ?kvs ''temperature'')"
    by (simp add: dict_get_def)
  have h4: "dict_get ?kvs ''humidity'' = PNone \<or> truthy (dict_get ?kvs ''humidity'')"
    by (simp add: dict_get_def)
  have h5: "dict_get ?kvs ''pressure'' = PNone \<or> truthy (dict_get ?kvs ''pressure'')"
    by (simp add: dict_get_def)
  from environment_exported_inside_stats [OF h1 h2 h3 h4 h5] h1 show ?thesis
    by (simp add: dict_get_def sensor_key_def ex_defs)
qed

section \<open>The removal after a failed transform\<close>

lemma remove_metrics_nothing: "aqi_g st key = None \<Longrightarrow> remove_metrics key st = st"
  by (simp add: remove_metrics_def gauge_remove_def)

lemma remove_metrics_first: "aqi_g (remove_metrics key st) key = None"
  by (simp add: remove_metrics_def gauge_remove_def Let_def)

lemma remove_metrics_twice: "remove_metrics key (remove_metrics key st) = remove_metrics key st"
  by (rule remove_metrics_nothing [OF remove_metrics_first])

text \<open>
  Claim C4. The removal should take all six entries of the identity away, a missing
  entry not standing in the way of the others. Here a first record exports temperature,
  humidity and pressure for an identity and no index (its statistics carry no average);
  the transform of a second record of the same identity fails. The first removal,
  \<open>aqi_g.remove\<close>, raises \<open>KeyError\<close>, the handler passes, and the other five removals
  never run: the three entries are still exported.
\<close>

theorem removal_stops_at_first_missing_entry:
  "fst (sensor_loop (ex_env (Inl TypeError)) ''1''
     [PDict [(''sensor_index'', PStr ''2''), (''name'', PStr ''S''), (''stats'', PStr ''{}''),
             (''temperature'', PInt 70), (''humidity'', PInt 40), (''pressure'', PInt 1013)],
      PDict [(''sensor_index'', PStr ''2''), (''name'', PStr ''S''), (''stats'', PStr ''not json'')]]
     ex_state) = Some ValueError \<and>
   metrics_at (snd (sensor_loop (ex_env (Inl TypeError)) ''1''
     [PDict [(''sensor_index'', PStr ''2''), (''name'', PStr ''S''), (''stats'', PStr ''{}''),
             (''temperature'', PInt 70), (''humidity'', PInt 40), (''pressure'', PInt 1013)],
      PDict [(''sensor_index'', PStr ''2''), (''name'', PStr ''S''), (''stats'', PStr ''not json'')]]
     ex_state)) (''1'', ''2'', ''S'') =
     [None, None, None, Some 70, Some 40, Some 1013]"
  by (simp add: metrics_at_def body_defs ex_defs)

section \<open>Fields that are zero\<close>

text \<open>
  Claim C5. A raw field that is zero should count as present and be exported. The tests
  \<open>if temp_f:\<close>, \<open>if pressure:\<close>, \<open>if humidity:\<close> and \<open>if pm25_10min_raw:\<close> are false for
  0 and 0.0: a record whose four readings are zero completes without setting anything,
  and the temperature exported before (70) stays in place of the new one.
\<close>

theorem zero_readings_are_not_exported:
  \<open>fst (sensor_body (ex_env (Inl TypeError)) ''1''
     (PDict [(''sensor_index'', PStr ''2''), (''name'', PStr ''S''),
             (''stats'', PStr ''{"pm2.5_10minute": 0.0}''),
             (''temperature'', PInt 0), (''humidity'', PInt 0), (''pressure'', PFloat 0)])
     (ex_state\<lparr>temp_g := [(''1'', ''2'', ''S'') \<mapsto> 70]\<rparr>)) = None \<and>
   metrics_at (snd (sensor_body (ex_env (Inl TypeError)) ''1''
     (PDict [(''sensor_index'', PStr ''2''), (''name'', PStr ''S''),
             (''stats'', PStr ''{"pm2.5_10minute": 0.0}''),
             (''temperature'', PInt 0), (''humidity'', PInt 0), (''pressure'', PFloat 0)])
     (ex_state\<lparr>temp_g := [(''1'', ''2'', ''S'') \<mapsto> 70]\<rparr>))) (''1'', ''2'', ''S'') =
     [None, None, None, Some 70, None, None]\<close>
  by (simp add: metrics_at_def body_defs ex_defs)

section \<open>The three index values\<close>

lemma export_aqi_values:
  assumes "py_float E raw = Inr v"
      and "to_iaqi E POLLUTANT_PM25 (max v 0) ALGO_EPA = Inr a"
      and "to_iaqi E POLLUTANT_PM25 (0.778 * max v 0 + 2.65) ALGO_EPA = Inr b"
      and "to_iaqi E POLLUTANT_PM25 (max (0.5 * max v 0 - 0.66) 0) ALGO_EPA = Inr c"
  shows "export_aqi E key raw st =
           (None, st\<lparr>aqi_g := (aqi_g st)(key \<mapsto> a),
                     aqi_AQandU_g := (aqi_AQandU_g st)(key \<mapsto> b),
                     aqi_LRAPA_g := (aqi_LRAPA_g st)(key \<mapsto> c)\<rparr>)"
  using assms by (simp add: export_aqi_def gauge_set_def gauge_labels_def Let_def)

text \<open>
  For an average \<open>v > 0\<close> given as a number, and a record without temperature, humidity
  and pressure, the transform sets exactly the three index values of the claim.
\<close>

lemma positive_average_three_indices:
  assumes "txt \<noteq> []"
      and "loads E txt = Some (PDict skvs)"
      and "dict_get skvs ''pm2.5_10minute'' = PFloat v"
      and "0 < v"
      and "to_iaqi E POLLUTANT_PM25 v ALGO_EPA = Inr a"
      and "to_iaqi E POLLUTANT_PM25 (0.778 * v + 2.65) ALGO_EPA = Inr b"
      and "to_iaqi E POLLUTANT_PM25 (max (0.5 * v - 0.66) 0) ALGO_EPA = Inr c"
  shows "try_body E key (PStr txt) PNone PNone PNone st =
           (None, st\<lparr>aqi_g := (aqi_g st)(key \<mapsto> a),
                     aqi_AQandU_g := (aqi_AQandU_g st)(key \<mapsto> b),
                     aqi_LRAPA_g := (aqi_LRAPA_g st)(key \<mapsto> c)\<rparr>)"
proof -
  from assms(4) have m: "max v 0 = v" by simp
  have "export_aqi E key (PFloat v) st =
           (None, st\<lparr>aqi_g := (aqi_g st)(key \<mapsto> a),
                     aqi_AQandU_g := (aqi_AQandU_g st)(key \<mapsto> b),
                     aqi_LRAPA_g := (aqi_LRAPA_g st)(key \<mapsto> c)\<rparr>)"
    by (rule export_aqi_values [where v = v]) (simp_all only: m py_float.simps assms(5-7))
  with assms(1-4) show ?thesis
    by (simp add: try_body_def seq_def run_if_def)
qed

text \<open>
  Claim C6. Every average \<open>v \<ge> 0\<close> in the statistics blob should give the three index
  values AQI(v), AQI(0.778 v + 2.65) and AQI(max(0.5 v - 0.66, 0)). At \<open>v = 0\<close> the test
  \<open>if pm25_10min_raw:\<close> is false and the transform sets none of them, although the
  computation it guards gives the three values for the same average (here, with the
  identity as the conversion: 0, 2.65 and 0).
\<close>

theorem zero_average_gives_no_index:
  \<open>fst (sensor_body (ex_env (Inl TypeError)) ''1''
     (PDict [(''sensor_index'', PStr ''2''), (''name'', PStr ''S''),
             (''stats'', PStr ''{"pm2.5_10minute": 0.0}'')]) ex_state) = None \<and>
   metrics_at (snd (sensor_body (ex_env (Inl TypeError)) ''1''
     (PDict [(''sensor_index'', PStr ''2''), (''name'', PStr ''S''),
             (''stats'', PStr ''{"pm2.5_10minute": 0.0}'')]) ex_state)) (''1'', ''2'', ''S'') =
     [None, None, None, None, None, None] \<and>
   metrics_at (snd (export_aqi (ex_env (Inl TypeError)) (''1'', ''2'', ''S'') (PFloat 0.0) ex_state))
     (''1'', ''2'', ''S'') = [Some 0, Some 2.65, Some 0, None, None, None]\<close>
  by (simp add: metrics_at_def body_defs ex_defs)

section \<open>One pass with all six values\<close>

text \<open>
  The values one pass of \<open>check_sensor\<close> leaves for a record with temperature 72.5,
  humidity 40, pressure 1013 and the average 12.0, for any conversion: the concentrations
  handed to it are 12.0, 0.778 * 12.0 + 2.65 = 11.986 and 0.5 * 12.0 - 0.66 = 5.34.
\<close>

lemma one_pass_values:
  assumes "http_get E (length (requests st)) (sensor_url pid priv) api_key = Inr resp"
      and "200 \<le> status_code resp" and "status_code resp \<le> 299"
      and "resp_json resp = Some (PDict [(''sensor'', PList
             [PDict [(''sensor_index'', sid), (''name'', nm), (''stats'', PStr txt),
                     (''temperature'', PFloat 72.5), (''humidity'', PInt 40),
                     (''pressure'', PInt 1013)]])])"
      and "txt \<noteq> []"
      and "loads E txt = Some (PDict [(''pm2.5_10minute'', PFloat 12.0)])"
      and "to_iaqi E POLLUTANT_PM25 12.0 ALGO_EPA = Inr a"
      and "to_iaqi E POLLUTANT_PM25 11.986 ALGO_EPA = Inr b"
      and "to_iaqi E POLLUTANT_PM25 5.34 ALGO_EPA = Inr c"
  shows "fst (check_sensor E api_key pid priv st) = None \<and>
         metrics_at (snd (check_sensor E api_key pid priv st)) (pid, str_of E sid, str_of E nm) =
           [Some a, Some b, Some c, Some 72.5, Some 40, Some 1013]"
proof -
  let ?key = "(pid, str_of E sid, str_of E nm)"
  let ?st0 = "st\<lparr>requests := requests st @ [(sensor_url pid priv, api_key)]\<rparr>"
  have f: "py_float E (PFloat 12) = Inr 12" by simp
  have x: "export_aqi E ?key (PFloat 12) s =
             (None, s\<lparr>aqi_g := (aqi_g s)(?key \<mapsto> a),
                      aqi_AQandU_g := (aqi_AQandU_g s)(?key \<mapsto> b),
                      aqi_LRAPA_g := (aqi_LRAPA_g s)(?key \<mapsto> c)\<rparr>)" for s
    by (rule export_aqi_values [OF f]) (insert assms(7-9), simp_all)
  have "sensor_body E pid
          (PDict [(''sensor_index'', sid), (''name'', nm), (''stats'', PStr txt),
                  (''temperature'', PFloat 72.5), (''humidity'', PInt 40),
                  (''pressure'', PInt 1013)]) ?st0 =
        (None, ?st0\<lparr>aqi_g := (aqi_g st)(?key \<mapsto> a),
                     aqi_AQandU_g := (aqi_AQandU_g st)(?key \<mapsto> b),
                     aqi_LRAPA_g := (aqi_LRAPA_g st)(?key \<mapsto> c),
                     temp_g := (temp_g st)(?key \<mapsto> 72.5),
                     pressure_g := (pressure_g st)(?key \<mapsto> 1013),
                     humidity_g := (humidity_g st)(?key \<mapsto> 40)\<rparr>)"
    using assms(5,6)
    by (simp add: sensor_key_def dict_get_def try_body_def seq_def run_if_def x
        export_temp_def export_pressure_def export_humidity_def gauge_set_def
        gauge_labels_def Let_def)
  with assms(1-4) show ?thesis
    by (simp add: check_sensor_def metrics_at_def dict_get_def Let_def)
qed

text \<open>
  The conversion of the AQI library cuts a PM2.5 concentration to one decimal before it
  looks at it, so 11.986 and 11.94 (both 11.9) have the same index.
\<close>

lemma round_down1_idem: "round_down1 (round_down1 c) = round_down1 c"
  by (simp add: round_down1_def)

lemma epa_pm25_iaqi_cut: "epa_pm25_iaqi c = epa_pm25_iaqi (round_down1 c)"
  by (simp add: epa_pm25_iaqi_def round_down1_idem)

lemma cut_11_986: "round_down1 11.986 = round_down1 11.94"
  by (simp add: round_down1_def)

text \<open>
  Claim C8. After one successful pass for a sensor whose record carries temperature 72.5,
  humidity 40, pressure 1013 and a 10-minute PM2.5 average of 12.0, the registry holds
  all six values for the identity of the record, with raw-AQI = AQI(12.0),
  AQandU-AQI = AQI(11.94) and LRAPA-AQI = AQI(5.34). The pass is the call of
  \<open>check_sensor\<close> for the sensor, with a response of success status whose one record has
  the statistics as text. AQI is the conversion of the AQI library, which reads a PM2.5
  concentration cut to one decimal: the concentration the code hands over for AQandU is
  11.986, and its index is the index of 11.94.
\<close>

theorem one_pass_holds_claimed_values:
  assumes "http_get E (length (requests st)) (sensor_url pid priv) api_key = Inr resp"
      and "200 \<le> status_code resp" and "status_code resp \<le> 299"
      and "resp_json resp = Some (PDict [(''sensor'', PList
             [PDict [(''sensor_index'', sid), (''name'', nm), (''stats'', PStr txt),
                     (''temperature'', PFloat 72.5), (''humidity'', PInt 40),
                     (''pressure'', PInt 1013)]])])"
      and "txt \<noteq> []"
      and "loads E txt = Some (PDict [(''pm2.5_10minute'', PFloat 12.0)])"
      and cut: "\<And>x. to_iaqi E POLLUTANT_PM25 x ALGO_EPA =
                   to_iaqi E POLLUTANT_PM25 (round_down1 x) ALGO_EPA"
      and "to_iaqi E POLLUTANT_PM25 12.0 ALGO_EPA = Inr a"
      and "to_iaqi E POLLUTANT_PM25 11.94 ALGO_EPA = Inr b"
      and "to_iaqi E POLLUTANT_PM25 5.34 ALGO_EPA = Inr c"
  shows "fst (check_sensor E api_key pid priv st) = None \<and>
         metrics_at (snd (check_sensor E api_key pid priv st)) (pid, str_of E sid, str_of E nm) =
           [Some a, Some b, Some c, Some 72.5, Some 40, Some 1013]"
proof -
  have "to_iaqi E POLLUTANT_PM25 11.986 ALGO_EPA =
        to_iaqi E POLLUTANT_PM25 (round_down1 11.986) ALGO_EPA"
    by (rule cut)
  also have "\<dots> = to_iaqi E POLLUTANT_PM25 (round_down1 11.94) ALGO_EPA"
    by (simp only: cut_11_986)
  also have "\<dots> = to_iaqi E POLLUTANT_PM25 11.94 ALGO_EPA"
    by (rule cut [symmetric])
  finally have b: "to_iaqi E POLLUTANT_PM25 11.986 ALGO_EPA = Inr b"
    using assms(9) by simp
  show ?thesis
    by (rule one_pass_values [OF assms(1-6) assms(8) b assms(10)])
qed

text \<open>
  With the EPA conversion the three index values are 50, 50 and 22: the index of 12.0,
  the index of 11.94 and the index of 5.34.
\<close>

theorem one_pass_holds_claimed_values_witness:
  \<open>fst (check_sensor
     (epa_env (Inr \<lparr>status_code = 200, resp_json = Some (PDict [(''sensor'', PList
        [PDict [(''sensor_index'', PStr ''2''), (''name'', PStr ''S''),
                (''stats'', PStr ''{"pm2.5_10minute": 12.0}''),
                (''temperature'', PFloat 72.5), (''humidity'', PInt 40),
                (''pressure'', PInt 1013)]])])\<rparr>))
     ''KEY'' ''1'' None ex_state) = None \<and>
   metrics_at (snd (check_sensor
     (epa_env (Inr \<lparr>status_code = 200, resp_json = Some (PDict [(''sensor'', PList
        [PDict [(''sensor_index'', PStr ''2''), (''name'', PStr ''S''),
                (''stats'', PStr ''{"pm2.5_10minute": 12.0}''),
                (''temperature'', PFloat 72.5), (''humidity'', PInt 40),
                (''pressure'', PInt 1013)]])])\<rparr>))
     ''KEY'' ''1'' None ex_state)) (''1'', ''2'', ''S'') =
     [Some 50, Some 50, Some 22, Some 72.5, Some 40, Some 1013] \<and>
   epa_pm25_iaqi 12.0 = Inr 50 \<and> epa_pm25_iaqi 11.94 = Inr 50 \<and> epa_pm25_iaqi 5.34 = Inr 22\<close>
proof -
  let ?resp = \<open>\<lparr>status_code = 200, resp_json = Some (PDict [(''sensor'', PList
        [PDict [(''sensor_index'', PStr ''2''), (''name'', PStr ''S''),
                (''stats'', PStr ''{"pm2.5_10minute": 12.0}''),
                (''temperature'', PFloat 72.5), (''humidity'', PInt 40),
                (''pressure'', PInt 1013)]])])\<rparr>\<close>
  let ?E = "epa_env (Inr ?resp)"
  have h1: "http_get ?E (length (requests ex_state)) (sensor_url ''1'' None) ''KEY'' = Inr ?resp"
    by (simp add: epa_env_def)
  have h2: "200 \<le> status_code ?resp" by simp
  have h3: "status_code ?resp \<le> 299" by simp
  have h4: \<open>resp_json ?resp = Some (PDict [(''sensor'', PList
             [PDict [(''sensor_index'', PStr ''2''), (''name'', PStr ''S''),
                     (''stats'', PStr ''{"pm2.5_10minute": 12.0}''),
                     (''temperature'', PFloat 72.5), (''humidity'', PInt 40),
                     (''pressure'', PInt 1013)]])])\<close>
    by simp
  have h5: \<open>''{"pm2.5_10minute": 12.0}'' \<noteq> []\<close> by simp
  have h6: \<open>loads ?E ''{"pm2.5_10minute": 12.0}'' = Some (PDict [(''pm2.5_10minute'', PFloat 12.0)])\<close>
    by (simp add: epa_env_def ex_loads_def)
  have h7: "to_iaqi ?E POLLUTANT_PM25 x ALGO_EPA = to_iaqi ?E POLLUTANT_PM25 (round_down1 x) ALGO_EPA"
    for x
    using epa_pm25_iaqi_cut [of x] by (simp add: epa_env_def)
  have v1: "epa_pm25_iaqi 12.0 = Inr 50"
    by (simp add: epa_pm25_iaqi_def epa_pm25_table_def round_down1_def round_half_even_def)
  have v2: "epa_pm25_iaqi 11.94 = Inr 50"
    by (simp add: epa_pm25_iaqi_def epa_pm25_table_def round_down1_def round_half_even_def)
  have v3: "epa_pm25_iaqi 5.34 = Inr 22"
    by (simp add: epa_pm25_iaqi_def epa_pm25_table_def round_down1_def round_half_even_def)
  have h8: "to_iaqi ?E POLLUTANT_PM25 12.0 ALGO_EPA = Inr 50" using v1 by (simp add: epa_env_def)
  have h9: "to_iaqi ?E POLLUTANT_PM25 11.94 ALGO_EPA = Inr 50" using v2 by (simp add: epa_env_def)
  have h10: "to_iaqi ?E POLLUTANT_PM25 5.34 ALGO_EPA = Inr 22" using v3 by (simp add: epa_env_def)
  from one_pass_holds_claimed_values [OF h1 h2 h3 h4 h5 h6 h7 h8 h9 h10] v1 v2 v3 show ?thesis
    by (simp add: epa_env_def ex_str_def)
qed

section \<open>A statistics blob that is not text\<close>

lemma json_loads_not_text: "\<forall>s. v \<noteq> PStr s \<Longrightarrow> json_loads E v = Inl TypeError"
  by (cases v) simp_all

lemma remove_metrics_all:
  assumes "None \<notin> set (metrics_at st key)"
  shows "metrics_at (remove_metrics key st) key = [None, None, None, None, None, None]"
  using assms by (auto simp add: metrics_at_def remove_metrics_def gauge_remove_def Let_def)

text \<open>
  Claim C10, as stated, at a record whose statistics blob is the empty object: the test
  \<open>if stats:\<close> is false for it, \<open>json.loads\<close> is not called and the transform completes.
\<close>

theorem empty_object_stats_do_not_fail:
  "sensor_body (ex_env (Inl TypeError)) ''1''
     (PDict [(''sensor_index'', PStr ''2''), (''name'', PStr ''S''), (''stats'', PDict []),
             (''temperature'', PInt 70)]) ex_state = (None, ex_state)"
  by (simp add: body_defs ex_defs)

text \<open>
  Claim C10, amended. For every record whose statistics blob is truthy and is not text
  (a non-empty object or list, a number other than zero, \<open>True\<close>), \<open>json.loads\<close> raises
  \<open>TypeError\<close>: the transform fails before it sets anything, the removal for the identity
  of the record runs on the registry as it was (after it the identity has no raw-AQI
  entry, and none of the six when it had all six), and the loop over the batch stops with
  the \<open>TypeError\<close>, which \<open>check_sensor\<close> lets through.
\<close>

theorem structured_stats_fail:
  assumes "truthy (dict_get kvs ''stats'')"
      and "\<forall>s. dict_get kvs ''stats'' \<noteq> PStr s"
  shows "sensor_body E pid (PDict kvs) st =
           (Some TypeError, remove_metrics (sensor_key E pid kvs) st) \<and>
         sensor_loop E pid (PDict kvs # rest) st =
           (Some TypeError, remove_metrics (sensor_key E pid kvs) st) \<and>
         aqi_g (remove_metrics (sensor_key E pid kvs) st) (sensor_key E pid kvs) = None \<and>
         (None \<notin> set (metrics_at st (sensor_key E pid kvs)) \<longrightarrow>
            metrics_at (remove_metrics (sensor_key E pid kvs) st) (sensor_key E pid kvs) =
              [None, None, None, None, None, None])"
proof -
  have b: "sensor_body E pid (PDict kvs) st =
             (Some TypeError, remove_metrics (sensor_key E pid kvs) st)"
    using assms(1) json_loads_not_text [OF assms(2), of E]
    by (simp add: try_body_def)
  then have l: "sensor_loop E pid (PDict kvs # rest) st =
             (Some TypeError, remove_metrics (sensor_key E pid kvs) st)"
    by simp
  from b l remove_metrics_first remove_metrics_all show ?thesis
    by blast
qed

text \<open>
  The record carries its statistics as an object, and the identity has all six entries:
  the transform fails with \<open>TypeError\<close> and the six entries are gone.
\<close>

theorem structured_stats_fail_witness:
  "sensor_body (ex_env (Inl TypeError)) ''1''
     (PDict [(''sensor_index'', PStr ''2''), (''name'', PStr ''S''),
             (''stats'', PDict [(''pm2.5_10minute'', PFloat 12.0)])])
     (ex_state\<lparr>aqi_g := [(''1'', ''2'', ''S'') \<mapsto> 50], aqi_AQandU_g := [(''1'', ''2'', ''S'') \<mapsto> 50],
               aqi_LRAPA_g := [(''1'', ''2'', ''S'') \<mapsto> 22], temp_g := [(''1'', ''2'', ''S'') \<mapsto> 70],
               humidity_g := [(''1'', ''2'', ''S'') \<mapsto> 40], pressure_g := [(''1'', ''2'', ''S'') \<mapsto> 1013]\<rparr>) =
     (Some TypeError, ex_state) \<and>
   metrics_at ex_state (''1'', ''2'', ''S'') = [None, None, None, None, None, None]"
proof -
  let ?E = "ex_env (Inl TypeError)"
  let ?kvs = "[(''sensor_index'', PStr ''2''), (''name'', PStr ''S''),
               (''stats'', PDict [(''pm2.5_10minute'', PFloat 12.0)])]"
  let ?st = "ex_state\<lparr>aqi_g := [(''1'', ''2'', ''S'') \<mapsto> 50], aqi_AQandU_g := [(''1'', ''2'', ''S'') \<mapsto> 50],
               aqi_LRAPA_g := [(''1'', ''2'', ''S'') \<mapsto> 22], temp_g := [(''1'', ''2'', ''S'') \<mapsto> 70],
               humidity_g := [(''1'', ''2'', ''S'') \<mapsto> 40], pressure_g := [(''1'', ''2'', ''S'') \<mapsto> 1013]\<rparr>"
  have h1: "truthy (dict_get ?kvs ''stats'')" by (simp add: dict_get_def)
  have h2: "\<forall>s. dict_get ?kvs ''stats'' \<noteq> PStr s" by (simp add: dict_get_def)
  have r: "remove_metrics (sensor_key ?E ''1'' ?kvs) ?st = ex_state"
    by (simp add: body_defs ex_defs)
  from structured_stats_fail [where E = ?E and pid = "''1''" and rest = "[]" and st = ?st, OF h1 h2] r
  show ?thesis
    by (simp add: metrics_at_def ex_state_def)
qed

end
